theory Spec2Isabelle
  imports Main
begin

section \<open>Go values: panics, slices, strings, runes\<close>

text \<open>
  Go's \<open>int\<close> is modelled as \<open>int\<close>, the IDs (\<open>uint64\<close>, \<open>int32\<close>) as \<open>nat\<close>, a
  \<open>string\<close> and a \<open>[]byte\<close> as a list of bytes (\<open>string\<close>). A run-time panic is a value
  of type \<open>fault\<close>; a function that can panic returns \<open>fault + 'a\<close>. A loop that may
  run forever takes a budget (fuel) and returns \<open>None\<close> when the budget is used up.
\<close>

datatype fault = SliceBounds | IndexRange | TypeAssertion

type_synonym 'a res = "fault + 'a"

fun bindR :: "'a res \<Rightarrow> ('a \<Rightarrow> 'b res) \<Rightarrow> 'b res" where
  "bindR (Inl e) f = Inl e"
| "bindR (Inr v) f = f v"

text \<open>\<open>s[a:b]\<close>: panics unless \<open>0 \<le> a \<le> b \<le> len(s)\<close>.\<close>

definition slice :: "'a list \<Rightarrow> int \<Rightarrow> int \<Rightarrow> 'a list res" where
  "slice s a b =
     (if 0 \<le> a \<and> a \<le> b \<and> b \<le> int (length s)
      then Inr (take (nat (b - a)) (drop (nat a) s))
      else Inl SliceBounds)"

text \<open>\<open>s[a:]\<close>.\<close>

definition sliceFrom :: "'a list \<Rightarrow> int \<Rightarrow> 'a list res" where
  "sliceFrom s a = slice s a (int (length s))"

text \<open>\<open>s[i]\<close> and \<open>s[i] = v\<close>: panic unless \<open>0 \<le> i < len(s)\<close>.\<close>

definition index :: "'a list \<Rightarrow> int \<Rightarrow> 'a res" where
  "index s i = (if 0 \<le> i \<and> i < int (length s) then Inr (s ! nat i) else Inl IndexRange)"

definition setIndex :: "'a list \<Rightarrow> int \<Rightarrow> 'a \<Rightarrow> 'a list res" where
  "setIndex s i v =
     (if 0 \<le> i \<and> i < int (length s) then Inr (s[nat i := v]) else Inl IndexRange)"

definition newline :: char where
  "newline = CHR 0x0A"

text \<open>\<open>strings.IndexByte\<close>, \<open>strings.LastIndexByte\<close>, \<open>strings.Count\<close> with a one-byte
  separator, \<open>slices.IndexFunc\<close>, \<open>cmp.Compare\<close> on integers.\<close>

fun indexFrom :: "'a list \<Rightarrow> ('a \<Rightarrow> bool) \<Rightarrow> int \<Rightarrow> int" where
  "indexFrom [] p i = - 1"
| "indexFrom (x # xs) p i = (if p x then i else indexFrom xs p (i + 1))"

definition IndexFunc :: "'a list \<Rightarrow> ('a \<Rightarrow> bool) \<Rightarrow> int" where
  "IndexFunc s p = indexFrom s p 0"

definition IndexByte :: "string \<Rightarrow> char \<Rightarrow> int" where
  "IndexByte s c = IndexFunc s (\<lambda>x. x = c)"

fun lastIndexFrom :: "string \<Rightarrow> char \<Rightarrow> int \<Rightarrow> int \<Rightarrow> int" where
  "lastIndexFrom [] c i found = found"
| "lastIndexFrom (x # xs) c i found = lastIndexFrom xs c (i + 1) (if x = c then i else found)"

definition LastIndexByte :: "string \<Rightarrow> char \<Rightarrow> int" where
  "LastIndexByte s c = lastIndexFrom s c 0 (- 1)"

definition Count :: "string \<Rightarrow> char \<Rightarrow> int" where
  "Count s c = int (length (filter (\<lambda>x. x = c) s))"

definition Compare :: "int \<Rightarrow> int \<Rightarrow> int" where
  "Compare a b = (if a < b then - 1 else if b < a then 1 else 0)"

subsection \<open>UTF-8 decoding as \<open>range\<close> over a string does it\<close>

text \<open>
  \<open>utf8.DecodeRuneInString\<close> of the Go runtime: the rune and its width in bytes. A byte
  sequence that is not valid UTF-8 decodes to \<open>RuneError\<close> of width 1.
\<close>

type_synonym rune = int

definition RuneError :: rune where
  "RuneError = 0xFFFD"

text \<open>For a leading byte: the size of the sequence and the accepted range of the
  second byte; \<open>None\<close> for a byte that cannot lead a multi-byte sequence.\<close>

definition first :: "nat \<Rightarrow> (nat \<times> nat \<times> nat) option" where
  "first p0 =
     (if p0 < 0xC2 then None
      else if p0 \<le> 0xDF then Some (2, 0x80, 0xBF)
      else if p0 = 0xE0 then Some (3, 0xA0, 0xBF)
      else if p0 \<le> 0xEC then Some (3, 0x80, 0xBF)
      else if p0 = 0xED then Some (3, 0x80, 0x9F)
      else if p0 \<le> 0xEF then Some (3, 0x80, 0xBF)
      else if p0 = 0xF0 then Some (4, 0x90, 0xBF)
      else if p0 \<le> 0xF3 then Some (4, 0x80, 0xBF)
      else if p0 = 0xF4 then Some (4, 0x80, 0x8F)
      else None)"

definition cont :: "nat \<Rightarrow> bool" where
  "cont b = (0x80 \<le> b \<and> b \<le> 0xBF)"

fun DecodeRune :: "nat list \<Rightarrow> rune \<times> nat" where
  "DecodeRune [] = (RuneError, 0)"
| "DecodeRune (p0 # rest) =
     (if p0 < 0x80 then (int p0, 1)
      else case first p0 of
        None \<Rightarrow> (RuneError, 1)
      | Some (sz, lo, hi) \<Rightarrow>
          if length (p0 # rest) < sz then (RuneError, 1)
          else let b1 = rest ! 0 in
            if b1 < lo \<or> hi < b1 then (RuneError, 1)
            else if sz \<le> 2 then (int ((p0 mod 32) * 64 + b1 mod 64), 2)
            else let b2 = rest ! 1 in
              if \<not> cont b2 then (RuneError, 1)
              else if sz \<le> 3
                then (int ((p0 mod 16) * 4096 + (b1 mod 64) * 64 + b2 mod 64), 3)
              else let b3 = rest ! 2 in
                if \<not> cont b3 then (RuneError, 1)
                else (int ((p0 mod 8) * 262144 + (b1 mod 64) * 4096
                            + (b2 mod 64) * 64 + b3 mod 64), 4))"

text \<open>
  \<open>for i, r := range s\<close>: the byte index and the rune of every iteration. The width of a
  rune of a non-empty string is at least 1, so dropping \<open>w - 1\<close> bytes after the first one
  is dropping \<open>w\<close> bytes.
\<close>

fun rangeFrom :: "nat list \<Rightarrow> int \<Rightarrow> (int \<times> rune) list" where
  "rangeFrom [] i = []"
| "rangeFrom (b # bs) i =
     (case DecodeRune (b # bs) of
        (r, w) \<Rightarrow> (i, r) # rangeFrom (drop (w - 1) bs) (i + int w))"

definition rangeString :: "string \<Rightarrow> (int \<times> rune) list" where
  "rangeString s = rangeFrom (map of_char s) 0"

section \<open>The data model of state.go\<close>

datatype ParsingMode =
  ParsingModeHappy | ParsingModeError | ParsingModeHandle | ParsingModeRewind | ParsingModeEscape

text \<open>The input: \<open>in_bytes\<close> and \<open>in_text\<close> are two views of the same content, \<open>in_n\<close>
  its length, \<open>in_pos\<close> the cursor.\<close>

record Input =
  in_bytes :: string
  in_text :: string
  in_n :: int
  in_pos :: int
  in_prevNl :: int
  in_line :: int
  in_binary :: bool

record ParserError =
  pe_text :: string
  pe_pos :: int
  pe_line :: int
  pe_col :: int
  pe_srcLine :: string
  pe_binary :: bool
  pe_parserID :: int

record errHand =
  err :: "ParserError option"
  witnessID :: nat
  witnessPos :: int
  culpritIdx :: int
  curDel :: int
  ignoreErrParser :: bool

record cachedWaste =
  cw_pos :: int
  cw_waste :: int

record cachedWasteIdx =
  cwi_pos :: int
  cwi_waste :: int
  cwi_idx :: int

text \<open>A Go \<open>interface{}\<close> holding a parser output: nothing, the slice of the outputs
  collected so far, or one output. The type \<open>'o\<close> stands for every output type.\<close>

datatype 'o any = NilValue | Outputs "'o list" | Output 'o

record 'o ParserResult =
  r_pos :: int
  r_Idx :: int
  r_HasSaveSpot :: bool
  r_SaveSpotIdx :: int
  r_SaveSpotStart :: int
  r_SaveSpot :: int
  r_Failed :: bool
  r_ErrorStart :: int
  r_Consumed :: int
  r_Output :: "'o any"
  r_Error :: "ParserError option"

record 'o ParserOutput =
  po_pos :: int
  po_Output :: "'o any"

text \<open>
  The four caches are Go maps: every copy of a \<open>State\<close> of one run refers to the same four
  map objects, and a write through one copy is seen through every other. They are the
  store \<open>Caches\<close>, passed to and returned by every function that reads or writes them; the
  fields of \<open>State\<close> that are copied by value are the record \<open>State\<close>.
\<close>

record State =
  mode :: ParsingMode
  input :: Input
  saveSpot :: int
  recover :: bool
  errHand :: errHand
  oldErrors :: "ParserError list"
  maxDel :: int
  maxRecursion :: int

record 'o Caches =
  recovererWasteCache :: "nat \<rightharpoonup> cachedWaste list"
  recovererWasteIdxCache :: "nat \<rightharpoonup> cachedWasteIdx list"
  parserCache :: "nat \<rightharpoonup> 'o ParserResult list"
  outputCache :: "nat \<rightharpoonup> 'o ParserOutput list"

section \<open>Handle Input\<close>

definition AtEnd :: "State \<Rightarrow> bool" where
  "AtEnd st = (in_pos (input st) \<ge> in_n (input st))"

definition BytesRemaining :: "State \<Rightarrow> int" where
  "BytesRemaining st = in_n (input st) - in_pos (input st)"

definition CurrentString :: "State \<Rightarrow> string res" where
  "CurrentString st =
     (let inp = input st;
          txt = (if in_binary inp \<and> int (length (in_text inp)) < in_n inp
                 then in_bytes inp else in_text inp)
      in sliceFrom txt (in_pos inp))"

definition CurrentPos :: "State \<Rightarrow> int" where
  "CurrentPos st = in_pos (input st)"

definition ByteCount :: "State \<Rightarrow> State \<Rightarrow> int" where
  "ByteCount st remaining =
     (if in_pos (input remaining) < in_pos (input st) then 0
      else if in_pos (input remaining) > in_n (input st)
        then in_n (input st) - in_pos (input st)
      else in_pos (input remaining) - in_pos (input st))"

definition MoveBy :: "State \<Rightarrow> int \<Rightarrow> State res" where
  "MoveBy st countBytes0 =
     (let countBytes = (if countBytes0 < 0 then 0 else countBytes0);
          pos = in_pos (input st);
          n = min (in_n (input st)) (pos + countBytes);
          st1 = st\<lparr>input := (input st)\<lparr>in_pos := n\<rparr>\<rparr>
      in if \<not> in_binary (input st1)
         then bindR (slice (in_text (input st1)) pos n) (\<lambda>moveText.
           let lastNlPos = LastIndexByte moveText newline
           in if lastNlPos \<ge> 0
              then Inr (st1\<lparr>input := (input st1)
                     \<lparr>in_prevNl := in_prevNl (input st1) + (lastNlPos + 1),
                      in_line := in_line (input st1) + Count moveText newline\<rparr>\<rparr>)
              else Inr st1)
         else Inr st1)"

definition Moved :: "State \<Rightarrow> State \<Rightarrow> bool" where
  "Moved st other = (in_pos (input st) \<noteq> in_pos (input other))"

text \<open>The loop of \<open>Delete\<close> over the runes of the remaining input: \<open>byteCount\<close> and \<open>j\<close>
  are its two counters; the result is the \<open>byteCount\<close> handed to \<open>MoveBy\<close>.\<close>

fun deleteLoop :: "(int \<times> rune) list \<Rightarrow> int \<Rightarrow> int \<Rightarrow> int \<Rightarrow> int" where
  "deleteLoop [] count byteCount j = byteCount"
| "deleteLoop ((i, r) # rest) count byteCount j =
     (if j + 1 \<ge> count then byteCount + i
      else deleteLoop rest count (byteCount + i) (j + 1))"

definition Delete :: "State \<Rightarrow> int \<Rightarrow> State res" where
  "Delete st count =
     (if count \<le> 0 then Inr st
      else if in_binary (input st) then MoveBy st count
      else bindR (CurrentString st) (\<lambda>s. MoveBy st (deleteLoop (rangeString s) count 0 0)))"

section \<open>Produce error messages\<close>

text \<open>\<open>%d\<close> of \<open>fmt.Sprintf\<close>.\<close>

fun showNat :: "nat \<Rightarrow> string" where
  "showNat k =
     (if k < 10 then [char_of (48 + k)] else showNat (k div 10) @ [char_of (48 + k mod 10)])"

definition showInt :: "int \<Rightarrow> string" where
  "showInt i = (if i < 0 then CHR ''-'' # showNat (nat (- i)) else showNat (nat i))"

text \<open>Modelled from the spec: the \<open>String\<close> method of \<open>ParsingMode\<close>, which \<open>%s\<close> prints, is
  not under src/; the spec names the five modes happy, error, handle, rewind and escape.\<close>

fun modeName :: "ParsingMode \<Rightarrow> string" where
  "modeName ParsingModeHappy = ''happy''"
| "modeName ParsingModeError = ''error''"
| "modeName ParsingModeHandle = ''handle''"
| "modeName ParsingModeRewind = ''rewind''"
| "modeName ParsingModeEscape = ''escape''"

definition bytesAround :: "State \<Rightarrow> int \<Rightarrow> (int \<times> int \<times> string) res" where
  "bytesAround st pos =
     (let start0 = max 0 (pos - 8);
          end = min (start0 + 16) (in_n (input st));
          start = (if end - start0 < 16 then max 0 (end - 16) else start0)
      in bindR (slice (in_bytes (input st)) start end) (\<lambda>srcLine.
           Inr (start, pos - start, srcLine)))"

definition tryWhere ::
  "State \<Rightarrow> int \<Rightarrow> int \<Rightarrow> int \<Rightarrow> int \<Rightarrow> (int \<times> int \<times> string \<times> bool) res" where
  "tryWhere st prevNl pos nextNl lineNum =
     (if prevNl < pos \<and> pos \<le> nextNl
      then bindR (slice (in_text (input st)) (prevNl + 1) nextNl)
             (\<lambda>s. Inr (lineNum, pos - prevNl - 1, s, True))
      else Inr (1, 0, [], False))"

text \<open>The two search loops have no exit condition of their own: they stop when \<open>tryWhere\<close>
  says so, or panic on a slice out of range once the search has left the text.\<close>

function whereForward :: "State \<Rightarrow> int \<Rightarrow> int \<Rightarrow> int \<Rightarrow> (int \<times> int \<times> string) res" where
  "whereForward st pos lineNum prevNl =
     (case sliceFrom (in_text (input st)) (prevNl + 1) of
        Inl e \<Rightarrow> Inl e
      | Inr rest \<Rightarrow>
         (let k = IndexByte rest newline;
              nextNl = (if k < 0 then int (length (in_text (input st))) else k + (prevNl + 1))
          in (case tryWhere st prevNl pos nextNl lineNum of
               Inl e \<Rightarrow> Inl e
             | Inr (line, col, srcLine, stop) \<Rightarrow>
                (if stop then Inr (line, col, srcLine)
                 else whereForward st pos (lineNum + 1) nextNl))))"
  by pat_completeness auto

termination whereForward
proof (relation "measure (\<lambda>(st, pos, lineNum, prevNl).
          nat (int (length (in_text (input st))) - prevNl))", goal_cases)
  case 1
  then show ?case by simp
next
  case (2 st pos lineNum prevNl rest k nextNl r line rest1 col rest2 srcLine stop)
  have ge: "indexFrom s p i = - 1 \<or> i \<le> indexFrom s p i" for s :: string and p i
  proof (induction s arbitrary: i)
    case Nil
    then show ?case by simp
  next
    case (Cons x s)
    from Cons [of "i + 1"] show ?case by auto
  qed
  from 2(1) have b: "0 \<le> prevNl + 1" "prevNl + 1 \<le> int (length (in_text (input st)))"
    by (auto simp: sliceFrom_def slice_def split: if_splits)
  have "k = - 1 \<or> 0 \<le> k" using ge [of rest "\<lambda>x. x = newline" 0] 2(2)
    by (simp add: IndexByte_def IndexFunc_def)
  with b 2(3) have "prevNl < nextNl" by (cases "k < 0") simp_all
  with b show ?case by simp
qed

function whereBackward :: "State \<Rightarrow> int \<Rightarrow> int \<Rightarrow> int \<Rightarrow> (int \<times> int \<times> string) res" where
  "whereBackward st pos lineNum nextNl =
     (case slice (in_text (input st)) 0 nextNl of
        Inl e \<Rightarrow> Inl e
      | Inr front \<Rightarrow>
         (let prevNl = LastIndexByte front newline
          in (case tryWhere st prevNl pos nextNl (lineNum - 1) of
               Inl e \<Rightarrow> Inl e
             | Inr (line, col, srcLine, stop) \<Rightarrow>
                (if stop then Inr (line, col, srcLine)
                 else whereBackward st pos (lineNum - 1) prevNl))))"
  by pat_completeness auto

termination whereBackward
proof (relation "measure (\<lambda>(st, pos, lineNum, nextNl). nat (nextNl + 1))", goal_cases)
  case 1
  then show ?case by simp
next
  case (2 st pos lineNum nextNl front prevNl r line rest1 col rest2 srcLine stop)
  have lt: "found < i + int (length s) \<Longrightarrow> lastIndexFrom s c i found < i + int (length s)"
    for s c i found
  proof (induction s arbitrary: i found)
    case Nil
    then show ?case by simp
  next
    case (Cons x s)
    have "(if x = c then i else found) < (i + 1) + int (length s)"
      using Cons.prems by simp
    from Cons.IH [OF this] show ?case by simp
  qed
  from 2(1) have b: "0 \<le> nextNl" "nextNl \<le> int (length (in_text (input st)))"
    and f: "length front = nat nextNl"
    by (auto simp: slice_def split: if_splits)
  have "prevNl < nextNl"
  proof (cases "front = []")
    case True
    with 2(2) f b show ?thesis by (simp add: LastIndexByte_def)
  next
    case False
    then have "- 1 < 0 + int (length front)" by simp
    from lt [OF this, of newline] 2(2) f b show ?thesis
      by (simp add: LastIndexByte_def)
  qed
  with b show ?case by simp
qed

definition textAround :: "State \<Rightarrow> int \<Rightarrow> (int \<times> int \<times> string) res" where
  "textAround st pos0 =
     (let pos = (if pos0 < 0 then 0 else pos0) in
      if length (in_text (input st)) = 0 then Inr (1, 0, [])
      else if pos > in_prevNl (input st)
        then whereForward st pos (in_line (input st)) (in_prevNl (input st))
      else if pos \<le> in_prevNl (input st) - pos
        then whereForward st pos 1 (- 1)
      else whereBackward st pos (in_line (input st)) (in_prevNl (input st)))"

definition newParserError :: "State \<Rightarrow> ParserError res" where
  "newParserError st =
     bindR (if in_binary (input st) then bytesAround st (in_pos (input st))
            else textAround st (in_pos (input st)))
       (\<lambda>(line, col, srcLine).
          Inr \<lparr>pe_text = [], pe_pos = in_pos (input st), pe_line = line, pe_col = col,
               pe_srcLine = srcLine, pe_binary = in_binary (input st), pe_parserID = - 1\<rparr>)"

section \<open>Handle success and failure\<close>

definition NewSemanticError :: "State \<Rightarrow> string \<Rightarrow> State res" where
  "NewSemanticError st message =
     bindR (newParserError st) (\<lambda>e.
       Inr (st\<lparr>oldErrors := oldErrors st @ [e\<lparr>pe_text := message\<rparr>]\<rparr>))"

definition ErrorAgain :: "State \<Rightarrow> ParserError option \<Rightarrow> State res" where
  "ErrorAgain st newErr =
     (case mode st of
        ParsingModeHappy \<Rightarrow>
          Inr (st\<lparr>errHand := (errHand st)\<lparr>err := newErr\<rparr>,
                  mode := (if witnessID (errHand st) = 0 then ParsingModeError
                           else ParsingModeRewind)\<rparr>)
      | _ \<Rightarrow>
          NewSemanticError st
            (''programming error: State.NewError/ErrorAgain called in mode `''
               @ modeName (mode st) @ ''`''))"

definition NewError :: "State \<Rightarrow> string \<Rightarrow> State res" where
  "NewError st message =
     bindR (newParserError st) (\<lambda>newErr.
       ErrorAgain st (Some (newErr\<lparr>pe_text := ''expected '' @ message\<rparr>)))"

definition Failed :: "State \<Rightarrow> bool" where
  "Failed st = (err (errHand st) \<noteq> None)"

definition SaveSpotMoved :: "State \<Rightarrow> State \<Rightarrow> bool" where
  "SaveSpotMoved st other = (saveSpot st \<noteq> saveSpot other)"

section \<open>Caching\<close>

text \<open>The parameter \<open>id\<close> of the source is \<open>cid\<close> here. A lookup returns \<open>(value, ok)\<close> in Go; here it is \<open>Some value\<close> when \<open>ok\<close>. The index
  that \<open>slices.IndexFunc\<close> finds is within the list.\<close>

definition cachedValue :: "('u \<rightharpoonup> 't list) \<Rightarrow> 'u \<Rightarrow> ('t \<Rightarrow> bool) \<Rightarrow> 't option" where
  "cachedValue cache cid f =
     (case cache cid of
        None \<Rightarrow> None
      | Some scache \<Rightarrow>
          (let i = IndexFunc scache f in if i < 0 then None else Some (scache ! nat i)))"

text \<open>
  Modelled from the spec: \<open>IndexOrMinFunc\<close> is called by \<open>cacheValue\<close> (with the comment
  that it will never be \<open>-1\<close>), but the file that defines it is not under src/. The spec
  says of a full list: "choose the slot whose key is nearest to the new key by ordering,
  and overwrite it". With nothing but the comparison \<open>f\<close> to go by, an element \<open>a\<close> is
  nearer to the new value \<open>v\<close> than \<open>b\<close> when \<open>a\<close> lies between \<open>b\<close> and \<open>v\<close> in the order
  of \<open>f\<close>; the function returns the index of an element that no other element is nearer
  than.
\<close>

definition nearer :: "('t \<Rightarrow> 't \<Rightarrow> int) \<Rightarrow> 't \<Rightarrow> 't \<Rightarrow> 't \<Rightarrow> bool" where
  "nearer f v a b = ((f b a < 0 \<and> f a v \<le> 0) \<or> (f v a \<le> 0 \<and> f a b < 0))"

fun nearestFrom :: "'t list \<Rightarrow> 't \<Rightarrow> ('t \<Rightarrow> 't \<Rightarrow> int) \<Rightarrow> int \<Rightarrow> int \<Rightarrow> 't \<Rightarrow> int" where
  "nearestFrom [] v f i bestIdx best = bestIdx"
| "nearestFrom (x # xs) v f i bestIdx best =
     (if nearer f v x best then nearestFrom xs v f (i + 1) i x
      else nearestFrom xs v f (i + 1) bestIdx best)"

definition IndexOrMinFunc :: "'t list \<Rightarrow> 't \<Rightarrow> ('t \<Rightarrow> 't \<Rightarrow> int) \<Rightarrow> int" where
  "IndexOrMinFunc s v f = (case s of [] \<Rightarrow> - 1 | x # xs \<Rightarrow> nearestFrom xs v f 1 0 x)"

definition cacheValue ::
  "('u \<rightharpoonup> 't list) \<Rightarrow> 'u \<Rightarrow> 't \<Rightarrow> ('t \<Rightarrow> 't \<Rightarrow> int) \<Rightarrow> int \<Rightarrow> ('u \<rightharpoonup> 't list) res" where
  "cacheValue cache cid v f maxDel0 =
     (let cacheSize = max (maxDel0 + 1) 8 in
      case cache cid of
        None \<Rightarrow> Inr (cache(cid \<mapsto> [] @ [v]))
      | Some scache \<Rightarrow>
          if int (length scache) < cacheSize
          then (let i = IndexFunc scache (\<lambda>t. f t v = 0) in
                if i < 0 then Inr (cache(cid \<mapsto> scache @ [v]))
                else bindR (setIndex scache i v) (\<lambda>s. Inr (cache(cid \<mapsto> s))))
          else (let i = IndexOrMinFunc scache v f in
                bindR (setIndex scache i v) (\<lambda>s. Inr (cache(cid \<mapsto> s)))))"

definition cacheRecovererWaste :: "State \<Rightarrow> nat \<Rightarrow> int \<Rightarrow> 'o Caches \<Rightarrow> 'o Caches res" where
  "cacheRecovererWaste st cid waste c =
     bindR (cacheValue (recovererWasteCache c) cid
              \<lparr>cw_pos = in_pos (input st), cw_waste = waste\<rparr>
              (\<lambda>a b. Compare (cw_pos a) (cw_pos b)) (maxDel st))
       (\<lambda>m. Inr (c\<lparr>recovererWasteCache := m\<rparr>))"

definition cachedRecovererWaste :: "State \<Rightarrow> nat \<Rightarrow> 'o Caches \<Rightarrow> int \<times> bool" where
  "cachedRecovererWaste st cid c =
     (case cachedValue (recovererWasteCache c) cid (\<lambda>wasteData. cw_pos wasteData = in_pos (input st)) of
        None \<Rightarrow> (- 1, False)
      | Some wasteData \<Rightarrow> (cw_waste wasteData, True))"


definition cachedRecovererWasteIdx :: "State \<Rightarrow> nat \<Rightarrow> 'o Caches \<Rightarrow> int \<times> int \<times> bool" where
  "cachedRecovererWasteIdx st crID c =
     (case cachedValue (recovererWasteIdxCache c) crID
             (\<lambda>wasteData. cwi_pos wasteData = in_pos (input st)) of
        None \<Rightarrow> (- 1, - 1, False)
      | Some wasteData \<Rightarrow> (cwi_waste wasteData, cwi_idx wasteData, True))"

text \<open>The composite literal of \<open>CacheParserResult\<close> names every field of \<open>ParserResult\<close>
  but \<open>Consumed\<close>, which therefore keeps its zero value.\<close>

definition CacheParserResult ::
  "State \<Rightarrow> nat \<Rightarrow> int \<Rightarrow> int \<Rightarrow> int \<Rightarrow> State \<Rightarrow> 'o any \<Rightarrow> 'o Caches \<Rightarrow> 'o Caches res" where
  "CacheParserResult st cid idx saveSpotIdx saveSpotStart newState output c =
     (let mark = (if saveSpotStart \<ge> 0 then saveSpot newState else - 1);
          errStart = (if err (errHand newState) \<noteq> None then ByteCount st newState else 0);
          result = \<lparr>r_pos = in_pos (input st),
                    r_Idx = idx,
                    r_HasSaveSpot = (saveSpotStart \<ge> 0),
                    r_SaveSpotIdx = saveSpotIdx,
                    r_SaveSpotStart = saveSpotStart,
                    r_SaveSpot = mark,
                    r_Failed = Failed newState,
                    r_ErrorStart = errStart,
                    r_Consumed = 0,
                    r_Output = output,
                    r_Error = err (errHand newState)\<rparr>
      in bindR (cacheValue (parserCache c) cid result
                  (\<lambda>a b. Compare (r_pos a) (r_pos b)) (maxDel st))
           (\<lambda>m. Inr (c\<lparr>parserCache := m\<rparr>)))"

definition CachedParserResult :: "State \<Rightarrow> nat \<Rightarrow> 'o Caches \<Rightarrow> 'o ParserResult option" where
  "CachedParserResult st cid c =
     cachedValue (parserCache c) cid (\<lambda>data. r_pos data = in_pos (input st))"

text \<open>\<open>clear\<close> deletes every entry of a map.\<close>

definition ClearAllCaches :: "State \<Rightarrow> 'o Caches \<Rightarrow> State \<times> 'o Caches" where
  "ClearAllCaches st c =
     (st, c\<lparr>recovererWasteCache := Map.empty,
            recovererWasteIdxCache := Map.empty,
            parserCache := Map.empty\<rparr>)"


section \<open>The witness protocol of error.go\<close>

text \<open>A parser is its method \<open>It\<close>: it takes the state and returns the new state and an
  output; it may write to the caches, and it may panic.\<close>

type_synonym 'o Parser = "State \<Rightarrow> 'o Caches \<Rightarrow> (State \<times> 'o \<times> 'o Caches) res"

text \<open>The field \<open>deleter\<close> of \<open>State\<close> is used by \<open>HandleWitness\<close> but not declared in the
  \<open>State\<close> of src/state.go; it is a parameter here.\<close>

type_synonym Deleter = "State \<Rightarrow> int \<Rightarrow> State res"

definition IWitnessed :: "State \<Rightarrow> nat \<Rightarrow> int \<Rightarrow> State \<Rightarrow> State res" where
  "IWitnessed state wID idx0 errState =
     (if err (errHand state) \<noteq> None
      then NewSemanticError state
             ''programming error: IWitnessed called while still handling an error''
      else (let idx = (if idx0 < 0 then 0 else idx0);
                errState1 =
                  (if witnessID (errHand errState) = 0
                   then errState\<lparr>errHand := (errHand errState)
                          \<lparr>witnessID := wID,
                           witnessPos := in_pos (input state),
                           culpritIdx := idx\<rparr>\<rparr>
                   else errState)
            in Inr (state\<lparr>errHand := errHand errState1\<rparr>)))"

text \<open>
  The retry loop of \<open>HandleWitness\<close>. Every iteration either returns or invokes the culprit
  \<open>parse\<close> once; the budget \<open>fuel\<close> is the number of invocations of \<open>parse\<close> that the loop
  may still make, and the result is \<open>None\<close> when the loop asks for one more.
\<close>

fun witnessLoop ::
  "nat \<Rightarrow> Deleter \<Rightarrow> 'o Parser \<Rightarrow> 'o \<Rightarrow> int \<Rightarrow> State \<Rightarrow> 'o Caches
     \<Rightarrow> (State \<times> 'o \<times> 'o Caches) res option" where
  "witnessLoop fuel deleter parse zero orgPos state c =
     (case (case mode state of
              ParsingModeHandle \<Rightarrow>
                Inr (state\<lparr>errHand := (errHand state)
                       \<lparr>err := None, curDel := 1, ignoreErrParser := False\<rparr>\<rparr>)
            | ParsingModeRewind \<Rightarrow>
                (let state1 = state\<lparr>errHand := (errHand state)
                                \<lparr>curDel := curDel (errHand state) + 1\<rparr>\<rparr>
                 in if curDel (errHand state1) > maxDel state1
                    then (if \<not> ignoreErrParser (errHand state1)
                          then Inr (state1\<lparr>errHand := (errHand state1)
                                 \<lparr>curDel := 0, ignoreErrParser := True\<rparr>\<rparr>)
                          else Inl (state1\<lparr>mode := ParsingModeEscape\<rparr>))
                    else Inr state1)
            | _ \<Rightarrow> Inl state) of
        Inl returned \<Rightarrow> Some (Inr (returned, zero, c))
      | Inr state1 \<Rightarrow>
         (let state2 = state1\<lparr>mode := ParsingModeHappy\<rparr>;
              state3 = state2\<lparr>input := (input state2)\<lparr>in_pos := orgPos\<rparr>\<rparr>
          in (case deleter state3 (curDel (errHand state3)) of
                Inl e \<Rightarrow> Some (Inl e)
              | Inr state4 \<Rightarrow>
                 (if ignoreErrParser (errHand state4) then Some (Inr (state4, zero, c))
                  else (case fuel of
                          0 \<Rightarrow> None
                        | Suc fuel' \<Rightarrow>
                           (case parse state4 c of
                              Inl e \<Rightarrow> Some (Inl e)
                            | Inr (state5, output, c') \<Rightarrow>
                               (if \<not> Failed state5 then Some (Inr (state5, output, c'))
                                else witnessLoop fuel' deleter parse zero orgPos
                                       (state5\<lparr>mode := ParsingModeRewind\<rparr>) c')))))))"

definition HandleWitness ::
  "nat \<Rightarrow> Deleter \<Rightarrow> 'o \<Rightarrow> State \<Rightarrow> nat \<Rightarrow> int \<Rightarrow> 'o Parser list \<Rightarrow> 'o Caches
     \<Rightarrow> (State \<times> 'o \<times> 'o Caches) res option" where
  "HandleWitness fuel deleter zero state wID idx parsers c =
     (if witnessID (errHand state) \<noteq> wID \<or> witnessPos (errHand state) \<noteq> in_pos (input state)
      then Some (bindR (index parsers idx) (\<lambda>parse. parse state c))
      else (let orgPos = in_pos (input state) in
            case (if culpritIdx (errHand state) \<ge> int (length parsers)
                  then bindR (NewSemanticError state
                         (''programming error: length of sub-parsers is only ''
                            @ showInt (int (length parsers))
                            @ '' but index of culprit sub-parser is ''
                            @ showInt (culpritIdx (errHand state))))
                       (\<lambda>state1. Inr (state1\<lparr>errHand := (errHand state1)
                                         \<lparr>culpritIdx := int (length parsers) - 1\<rparr>\<rparr>))
                  else Inr state) of
              Inl e \<Rightarrow> Some (Inl e)
            | Inr state1 \<Rightarrow>
               (case index parsers (culpritIdx (errHand state1)) of
                  Inl e \<Rightarrow> Some (Inl e)
                | Inr parse \<Rightarrow> witnessLoop fuel deleter parse zero orgPos state1 c)))"

section \<open>Recoverers\<close>

text \<open>A recoverer returns the waste; it may write to the caches and it may panic. The loop
  of the default recoverer takes a budget of iterations.\<close>

type_synonym 'o Recoverer = "State \<Rightarrow> 'o Caches \<Rightarrow> (int \<times> 'o Caches) res"

fun recovererLoop ::
  "nat \<Rightarrow> 'o Parser \<Rightarrow> State \<Rightarrow> State \<Rightarrow> 'o Caches \<Rightarrow> (int \<times> 'o Caches) res option" where
  "recovererLoop fuel parse state curState c =
     (if BytesRemaining curState > 0
      then (case fuel of
              0 \<Rightarrow> None
            | Suc fuel' \<Rightarrow>
               (case parse curState c of
                  Inl e \<Rightarrow> Some (Inl e)
                | Inr (newState, output, c') \<Rightarrow>
                   (if \<not> Failed newState then Some (Inr (ByteCount state curState, c'))
                    else (case Delete curState 1 of
                            Inl e \<Rightarrow> Some (Inl e)
                          | Inr curState' \<Rightarrow> recovererLoop fuel' parse state curState' c'))))
      else Some (Inr (- 1, c)))"

definition DefaultRecovererFunc ::
  "nat \<Rightarrow> 'o Parser \<Rightarrow> State \<Rightarrow> 'o Caches \<Rightarrow> (int \<times> 'o Caches) res option" where
  "DefaultRecovererFunc fuel parse state c = recovererLoop fuel parse state state c"

text \<open>The ID that \<open>CachingRecoverer\<close> and \<open>NewCombiningRecoverer\<close> take from a global counter
  at construction is a parameter.\<close>

definition CachingRecoverer :: "nat \<Rightarrow> 'o Recoverer \<Rightarrow> 'o Recoverer" where
  "CachingRecoverer cid recoverer state c =
     (case cachedRecovererWaste state cid c of
        (waste, ok) \<Rightarrow>
          if \<not> ok
          then bindR (recoverer state c) (\<lambda>(waste', c1).
                 bindR (cacheRecovererWaste state cid waste' c1) (\<lambda>c2. Inr (waste', c2)))
          else Inr (waste, c))"

record 'o CombiningRecoverer =
  cr_recoverers :: "'o Recoverer list"
  cr_id :: nat



definition CachedIndex :: "'o CombiningRecoverer \<Rightarrow> State \<Rightarrow> 'o Caches \<Rightarrow> int \<times> bool" where
  "CachedIndex crc state c =
     (case cachedRecovererWasteIdx state (cr_id crc) c of
        (_, idx, ok) \<Rightarrow> if \<not> ok then (- 1, False) else (idx, True))"

section \<open>Deleters\<close>

definition DefaultBinaryDeleter :: Deleter where
  "DefaultBinaryDeleter state count = MoveBy state count"

text \<open>\<open>unicode.IsLetter\<close>, \<open>unicode.IsNumber\<close> and \<open>unicode.IsSpace\<close> are tables of the Go
  library; the text deleter takes them as a parameter. \<open>asciiTables\<close> are these tables on
  the runes below 128, and say no to every other rune.\<close>

record Unicode =
  IsLetter :: "rune \<Rightarrow> bool"
  IsNumber :: "rune \<Rightarrow> bool"
  IsSpace :: "rune \<Rightarrow> bool"

definition asciiTables :: Unicode where
  "asciiTables =
     \<lparr>IsLetter = (\<lambda>r. (65 \<le> r \<and> r \<le> 90) \<or> (97 \<le> r \<and> r \<le> 122)),
      IsNumber = (\<lambda>r. 48 \<le> r \<and> r \<le> 57),
      IsSpace = (\<lambda>r. (9 \<le> r \<and> r \<le> 13) \<or> r = 32)\<rparr>"

definition runeOf :: "char \<Rightarrow> rune" where
  "runeOf ch = int (of_char ch)"

text \<open>The class of a rune, one of \<open>'a'\<close>, \<open>' '\<close>, \<open>'('\<close>, \<open>'+'\<close> and \<open>utf8.RuneError\<close>.\<close>

definition runeTyp :: "Unicode \<Rightarrow> rune \<Rightarrow> rune" where
  "runeTyp u r =
     (if IsLetter u r \<or> IsNumber u r \<or> r = runeOf CHR ''_'' then runeOf CHR ''a''
      else if IsSpace u r then runeOf CHR '' ''
      else if r \<in> set (map runeOf ''([{}])'') then runeOf CHR ''(''
      else if r \<in> set (map runeOf (''+-*/%^=:<>~|'' @ [CHR 0x5C] @ '';.,'' @ [CHR 0x22, CHR 0x60, CHR 0x27]))
        then runeOf CHR ''+''
      else RuneError)"

text \<open>
  \<open>strings.IndexFunc\<close> with the closure of \<open>DefaultTextDeleter\<close>: \<open>found\<close> and \<open>oldTyp\<close> are the
  two variables that the closure captures and changes from call to call. \<open>typ\<close> and
  \<open>paren\<close> are declared inside the closure, so that \<open>paren\<close> is 0 whenever it is read.
\<close>

fun textDeleterScan :: "Unicode \<Rightarrow> int \<Rightarrow> (int \<times> rune) list \<Rightarrow> int \<Rightarrow> rune \<Rightarrow> int" where
  "textDeleterScan u count [] found oldTyp = - 1"
| "textDeleterScan u count ((i, r) # rest) found oldTyp =
     (let typ = runeTyp u r;
          paren = 0;
          found' =
            (if typ \<noteq> oldTyp
             then (let found1 = (if typ \<noteq> runeOf CHR '' '' \<and> oldTyp \<noteq> 0
                                 then found + 1 else found)
                   in if typ = runeOf CHR ''('' \<and> oldTyp = runeOf CHR ''('' \<and> r \<noteq> paren
                      then found1 + 1 else found1)
             else found);
          oldTyp' = (if typ \<noteq> oldTyp then typ else oldTyp)
      in if found' = count then i else textDeleterScan u count rest found' oldTyp')"

definition DefaultTextDeleter :: "Unicode \<Rightarrow> Deleter" where
  "DefaultTextDeleter u state count =
     bindR (CurrentString state) (\<lambda>s.
       let byteCount = textDeleterScan u count (rangeString s) 0 0
       in if byteCount < 0 then MoveBy state (BytesRemaining state)
          else MoveBy state byteCount)"

section \<open>The sequence combinator\<close>

text \<open>
  \<open>mapData\<close>: the outputs of the five sub-parsers and of the mapping functions have the one
  type \<open>'o\<close>; \<open>md_zero\<close> is the zero value of the output type \<open>MO\<close>. A mapping function
  returns its result and, when it fails, the message of its error.
\<close>

record 'o mapData =
  md_id :: nat
  md_p1 :: "'o Parser"
  md_p2 :: "'o Parser"
  md_p3 :: "'o Parser"
  md_p4 :: "'o Parser"
  md_p5 :: "'o Parser"
  md_n :: int
  md_fn1 :: "'o \<Rightarrow> 'o \<times> string option"
  md_fn2 :: "'o \<Rightarrow> 'o \<Rightarrow> 'o \<times> string option"
  md_fn3 :: "'o \<Rightarrow> 'o \<Rightarrow> 'o \<Rightarrow> 'o \<times> string option"
  md_fn4 :: "'o \<Rightarrow> 'o \<Rightarrow> 'o \<Rightarrow> 'o \<Rightarrow> 'o \<times> string option"
  md_fn5 :: "'o \<Rightarrow> 'o \<Rightarrow> 'o \<Rightarrow> 'o \<Rightarrow> 'o \<Rightarrow> 'o \<times> string option"
  md_zero :: 'o

text \<open>\<open>md.mapnError\<close> calls back into the other mode handlers of the combinator;
  \<open>sequenceHappy\<close> takes it as a parameter.\<close>

type_synonym 'o mapnError =
  "State \<Rightarrow> int \<Rightarrow> 'o \<Rightarrow> 'o \<Rightarrow> 'o \<Rightarrow> 'o \<Rightarrow> 'o \<Rightarrow> 'o Caches \<Rightarrow> (State \<times> 'o \<times> 'o Caches) res"

text \<open>\<open>var newState State\<close>: the state that a skipped sub-parser leaves behind. The
  declaration of \<open>ParsingMode\<close> is not under src/; its zero value is taken to be the first
  mode, happy.\<close>

definition zeroState :: State where
  "zeroState =
     \<lparr>mode = ParsingModeHappy,
      input = \<lparr>in_bytes = [], in_text = [], in_n = 0, in_pos = 0, in_prevNl = 0, in_line = 0,
               in_binary = False\<rparr>,
      saveSpot = 0, recover = False,
      errHand = \<lparr>err = None, witnessID = 0, witnessPos = 0, culpritIdx = 0, curDel = 0,
                 ignoreErrParser = False\<rparr>,
      oldErrors = [], maxDel = 0, maxRecursion = 0\<rparr>"

text \<open>\<open>result.Output.(MO)\<close>.\<close>

definition assertMO :: "'o any \<Rightarrow> 'o res" where
  "assertMO x = (case x of Output v \<Rightarrow> Inr v | _ \<Rightarrow> Inl TypeAssertion)"

text \<open>The end of every nesting level: map the outputs, cache the result, return.\<close>

definition seqMap ::
  "'o mapData \<Rightarrow> State \<Rightarrow> State \<Rightarrow> int \<Rightarrow> int \<Rightarrow> int \<Rightarrow> 'o \<times> string option \<Rightarrow> 'o Caches
     \<Rightarrow> (State \<times> 'o \<times> 'o Caches) res" where
  "seqMap md state newState i noWayBackIdx noWayBackStart r c =
     (case r of
        (mapped, Some e) \<Rightarrow>
          bindR (CacheParserResult state (md_id md) i noWayBackIdx noWayBackStart newState
                   (Output (md_zero md)) c) (\<lambda>c1.
            bindR (NewSemanticError newState e) (\<lambda>s. Inr (s, md_zero md, c1)))
      | (mapped, None) \<Rightarrow>
          bindR (CacheParserResult state (md_id md) i noWayBackIdx noWayBackStart newState
                   (Output mapped) c) (\<lambda>c1. Inr (newState, mapped, c1)))"

text \<open>The failure of a sub-parser other than the first.\<close>

definition seqFailed ::
  "'o mapnError \<Rightarrow> 'o mapData \<Rightarrow> State \<Rightarrow> State \<Rightarrow> int \<Rightarrow> int \<Rightarrow> int \<Rightarrow> 'o list
     \<Rightarrow> 'o \<Rightarrow> 'o \<Rightarrow> 'o \<Rightarrow> 'o \<Rightarrow> 'o \<Rightarrow> 'o Caches \<Rightarrow> (State \<times> 'o \<times> 'o Caches) res" where
  "seqFailed mapnError md state newState i noWayBackIdx noWayBackStart outputs
       out1 out2 out3 out4 out5 c =
     bindR (CacheParserResult state (md_id md) i noWayBackIdx noWayBackStart newState
              (Outputs outputs) c) (\<lambda>c1.
       bindR (IWitnessed state (md_id md) 0 newState) (\<lambda>state1.
         if noWayBackStart < 0 then Inr (state1, md_zero md, c1)
         else mapnError state1 i out1 out2 out3 out4 out5 c1))"

definition sequenceHappy5 ::
  "'o mapnError \<Rightarrow> 'o mapData \<Rightarrow> State \<Rightarrow> State \<Rightarrow> int \<Rightarrow> int \<Rightarrow> 'o list
     \<Rightarrow> 'o \<Rightarrow> 'o \<Rightarrow> 'o \<Rightarrow> 'o \<Rightarrow> 'o \<Rightarrow> 'o Caches \<Rightarrow> (State \<times> 'o \<times> 'o Caches) res" where
  "sequenceHappy5 mapnError md state newState4 noWayBackStart noWayBackIdx outputs
       out1 out2 out3 out4 out5 c =
     bindR (md_p5 md newState4 c) (\<lambda>(newState5, out5', c1).
       if Failed newState5
       then seqFailed mapnError md state newState5 4 noWayBackIdx noWayBackStart outputs
              out1 out2 out3 out4 out5' c1
       else if SaveSpotMoved newState4 newState5
       then seqMap md state newState5 4 4 (ByteCount state newState4)
              (md_fn5 md out1 out2 out3 out4 out5') c1
       else seqMap md state newState5 4 noWayBackIdx noWayBackStart
              (md_fn5 md out1 out2 out3 out4 out5') c1)"

definition sequenceHappy4 ::
  "'o mapnError \<Rightarrow> 'o mapData \<Rightarrow> State \<Rightarrow> int \<Rightarrow> State \<Rightarrow> int \<Rightarrow> int \<Rightarrow> 'o list
     \<Rightarrow> 'o \<Rightarrow> 'o \<Rightarrow> 'o \<Rightarrow> 'o \<Rightarrow> 'o \<Rightarrow> 'o Caches \<Rightarrow> (State \<times> 'o \<times> 'o Caches) res" where
  "sequenceHappy4 mapnError md state startIdx newState3 noWayBackStart noWayBackIdx outputs
       out1 out2 out3 out4 out5 c =
     (let rest = (\<lambda>newState4 out4' noWayBackIdx' noWayBackStart' c'.
            if md_n md > 4
            then sequenceHappy5 mapnError md state newState4 noWayBackStart' noWayBackIdx'
                   (outputs @ [out4']) out1 out2 out3 out4' out5 c'
            else seqMap md state newState4 3 noWayBackIdx' noWayBackStart'
                   (md_fn4 md out1 out2 out3 out4') c')
      in if startIdx \<le> 3
         then bindR (md_p4 md newState3 c) (\<lambda>(newState4, out4', c1).
                if Failed newState4
                then seqFailed mapnError md state newState4 3 noWayBackIdx noWayBackStart
                       outputs out1 out2 out3 out4' out5 c1
                else if SaveSpotMoved newState3 newState4
                then rest newState4 out4' 3 (ByteCount state newState3) c1
                else rest newState4 out4' noWayBackIdx noWayBackStart c1)
         else rest zeroState out4 noWayBackIdx noWayBackStart c)"

definition sequenceHappy3 ::
  "'o mapnError \<Rightarrow> 'o mapData \<Rightarrow> State \<Rightarrow> int \<Rightarrow> State \<Rightarrow> int \<Rightarrow> int \<Rightarrow> 'o list
     \<Rightarrow> 'o \<Rightarrow> 'o \<Rightarrow> 'o \<Rightarrow> 'o \<Rightarrow> 'o \<Rightarrow> 'o Caches \<Rightarrow> (State \<times> 'o \<times> 'o Caches) res" where
  "sequenceHappy3 mapnError md state startIdx newState2 noWayBackStart noWayBackIdx outputs
       out1 out2 out3 out4 out5 c =
     (let rest = (\<lambda>newState3 out3' noWayBackIdx' noWayBackStart' c'.
            if md_n md > 3
            then sequenceHappy4 mapnError md state startIdx newState3 noWayBackStart'
                   noWayBackIdx' (outputs @ [out3']) out1 out2 out3' out4 out5 c'
            else seqMap md state newState3 2 noWayBackIdx' noWayBackStart'
                   (md_fn3 md out1 out2 out3') c')
      in if startIdx \<le> 2
         then bindR (md_p3 md newState2 c) (\<lambda>(newState3, out3', c1).
                if Failed newState3
                then seqFailed mapnError md state newState3 2 noWayBackIdx noWayBackStart
                       outputs out1 out2 out3' out4 out5 c1
                else if SaveSpotMoved newState2 newState3
                then rest newState3 out3' 2 (ByteCount state newState2) c1
                else rest newState3 out3' noWayBackIdx noWayBackStart c1)
         else rest zeroState out3 noWayBackIdx noWayBackStart c)"

definition sequenceHappy2 ::
  "'o mapnError \<Rightarrow> 'o mapData \<Rightarrow> State \<Rightarrow> int \<Rightarrow> State \<Rightarrow> int \<Rightarrow> int \<Rightarrow> 'o list
     \<Rightarrow> 'o \<Rightarrow> 'o \<Rightarrow> 'o \<Rightarrow> 'o \<Rightarrow> 'o \<Rightarrow> 'o Caches \<Rightarrow> (State \<times> 'o \<times> 'o Caches) res" where
  "sequenceHappy2 mapnError md state startIdx newState1 noWayBackStart noWayBackIdx outputs
       out1 out2 out3 out4 out5 c =
     (let rest = (\<lambda>newState2 out2' noWayBackIdx' noWayBackStart' c'.
            if md_n md > 2
            then sequenceHappy3 mapnError md state startIdx newState2 noWayBackStart'
                   noWayBackIdx' (outputs @ [out2']) out1 out2' out3 out4 out5 c'
            else seqMap md state newState2 1 noWayBackIdx' noWayBackStart'
                   (md_fn2 md out1 out2') c')
      in if startIdx \<le> 1
         then bindR (md_p2 md newState1 c) (\<lambda>(newState2, out2', c1).
                if Failed newState2
                then seqFailed mapnError md state newState2 1 noWayBackIdx noWayBackStart
                       outputs out1 out2' out3 out4 out5 c1
                else if SaveSpotMoved newState1 newState2
                then rest newState2 out2' 1 (ByteCount state newState1) c1
                else rest newState2 out2' noWayBackIdx noWayBackStart c1)
         else rest zeroState out2 noWayBackIdx noWayBackStart c)"

text \<open>
  \<open>sequenceHappy\<close>: the cache is asked only when parsing starts at the first sub-parser.
  The nesting levels for the second to the fifth sub-parser are the four definitions
  above. \<open>NoWayBackMoved\<close> of this file is \<open>SaveSpotMoved\<close> of state.go.
\<close>

definition sequenceHappy ::
  "'o mapnError \<Rightarrow> 'o mapData \<Rightarrow> State \<Rightarrow> State \<Rightarrow> int \<Rightarrow> int \<Rightarrow> int
     \<Rightarrow> 'o \<Rightarrow> 'o \<Rightarrow> 'o \<Rightarrow> 'o \<Rightarrow> 'o \<Rightarrow> 'o Caches \<Rightarrow> (State \<times> 'o \<times> 'o Caches) res" where
  "sequenceHappy mapnError md state remaining startIdx noWayBackStart noWayBackIdx
       out1 out2 out3 out4 out5 c =
     (case (if startIdx \<le> 0 then CachedParserResult state (md_id md) c else None) of
        Some result \<Rightarrow>
          if r_Failed result
          then bindR (ErrorAgain state (r_Error result)) (\<lambda>s. Inr (s, md_zero md, c))
          else bindR (MoveBy state (r_Consumed result)) (\<lambda>s.
                 bindR (assertMO (r_Output result)) (\<lambda>output. Inr (s, output, c)))
      | None \<Rightarrow>
         (let rest = (\<lambda>newState1 out1' noWayBackIdx' noWayBackStart' c'.
                if md_n md > 1
                then sequenceHappy2 mapnError md state startIdx newState1 noWayBackStart'
                       noWayBackIdx' ([] @ [out1']) out1' out2 out3 out4 out5 c'
                else seqMap md state newState1 0 noWayBackIdx' noWayBackStart'
                       (md_fn1 md out1') c')
          in if startIdx \<le> 0
             then bindR (md_p1 md state c) (\<lambda>(newState1, out1', c1).
                    if Failed newState1
                    then bindR (CacheParserResult state (md_id md) 0 noWayBackIdx
                                  noWayBackStart newState1 (Outputs []) c1) (\<lambda>c2.
                           bindR (IWitnessed state (md_id md) 0 newState1) (\<lambda>s.
                             Inr (s, md_zero md, c2)))
                    else if SaveSpotMoved state newState1
                    then rest newState1 out1' 0 0 c1
                    else rest newState1 out1' noWayBackIdx noWayBackStart c1)
             else rest zeroState out1 noWayBackIdx noWayBackStart c))"

section \<open>Notions of the specification\<close>

text \<open>The invariant of the input that the specification states: the cursor lies within
  the input, \<open>prevNl\<close> is the offset of the last newline before the cursor (\<open>-1\<close> when there
  is none) and \<open>line\<close> is the 1-based number of the line that starts after it.\<close>

definition inputInv :: "Input \<Rightarrow> bool" where
  "inputInv inp =
     (0 \<le> in_pos inp \<and> in_pos inp \<le> in_n inp \<and> in_prevNl inp \<le> in_pos inp
      \<and> in_prevNl inp = LastIndexByte (take (nat (in_pos inp)) (in_text inp)) newline
      \<and> in_line inp = 1 + Count (take (nat (in_pos inp)) (in_text inp)) newline)"




text \<open>The comparison that every caller of \<open>cacheValue\<close> passes: \<open>cmp.Compare\<close> on the key of
  the entries, their position.\<close>

definition byKey :: "('t \<Rightarrow> int) \<Rightarrow> 't \<Rightarrow> 't \<Rightarrow> int" where
  "byKey key a b = Compare (key a) (key b)"

text \<open>A run of insertions into one cache.\<close>

fun cacheAll ::
  "('u \<rightharpoonup> 't list) \<Rightarrow> ('u \<times> 't) list \<Rightarrow> ('t \<Rightarrow> 't \<Rightarrow> int) \<Rightarrow> int \<Rightarrow> ('u \<rightharpoonup> 't list) res" where
  "cacheAll cache [] f md = Inr cache"
| "cacheAll cache ((cid, v) # rest) f md =
     (case cacheValue cache cid v f md of
        Inl e \<Rightarrow> Inl e
      | Inr cache' \<Rightarrow> cacheAll cache' rest f md)"

section \<open>Example inputs\<close>

definition textInput :: "string \<Rightarrow> int \<Rightarrow> int \<Rightarrow> int \<Rightarrow> Input" where
  "textInput s p nl ln =
     \<lparr>in_bytes = [], in_text = s, in_n = int (length s), in_pos = p, in_prevNl = nl,
      in_line = ln, in_binary = False\<rparr>"


definition stateOf :: "Input \<Rightarrow> int \<Rightarrow> State" where
  "stateOf inp md =
     \<lparr>mode = ParsingModeHappy, input = inp, saveSpot = - 1, recover = True,
      errHand = \<lparr>err = None, witnessID = 0, witnessPos = 0, culpritIdx = 0, curDel = 0,
                 ignoreErrParser = False\<rparr>,
      oldErrors = [], maxDel = md, maxRecursion = 10\<rparr>"

text \<open>A text at its start, with \<open>maxDel = 3\<close>.\<close>

definition textState :: "string \<Rightarrow> State" where
  "textState s = stateOf (textInput s 0 (- 1) 1) 3"

definition twoLines :: string where
  "twoLines = ''a'' @ [newline] @ ''b'' @ [newline] @ ''c''"






definition wasteAt :: "int \<Rightarrow> int \<Rightarrow> cachedWaste" where
  "wasteAt p w = \<lparr>cw_pos = p, cw_waste = w\<rparr>"

definition twoWastes :: "cachedWaste list" where
  "twoWastes = [wasteAt 0 1, wasteAt 5 2]"

definition eightWastes :: "cachedWaste list" where
  "eightWastes = map (\<lambda>p. wasteAt p 1) [0, 10, 20, 30, 40, 50, 60, 70]"

section \<open>Lemmas\<close>








lemma indexFrom_range:
  "indexFrom s p i = - 1 \<or> (i \<le> indexFrom s p i \<and> indexFrom s p i < i + int (length s))"
proof (induction s arbitrary: i)
  case Nil
  then show ?case by simp
next
  case (Cons x s)
  from Cons [of "i + 1"] show ?case by auto
qed

lemma IndexFunc_range:
  "IndexFunc s p < 0 \<or> (0 \<le> IndexFunc s p \<and> IndexFunc s p < int (length s))"
  using indexFrom_range [of s p 0] by (auto simp: IndexFunc_def)

lemma nearestFrom_range:
  "0 \<le> bi \<Longrightarrow> bi < i \<Longrightarrow>
     0 \<le> nearestFrom xs v f i bi b \<and> nearestFrom xs v f i bi b < i + int (length xs)"
proof (induction xs arbitrary: i bi b)
  case Nil
  then show ?case by simp
next
  case (Cons x xs)
  show ?case
  proof (cases "nearer f v x b")
    case True
    from Cons.IH [of i "i + 1" x] Cons.prems True show ?thesis by simp
  next
    case False
    from Cons.IH [of bi "i + 1" b] Cons.prems False show ?thesis by simp
  qed
qed

lemma IndexOrMinFunc_range:
  "s \<noteq> [] \<Longrightarrow> 0 \<le> IndexOrMinFunc s v f \<and> IndexOrMinFunc s v f < int (length s)"
proof (cases s)
  case Nil
  assume "s \<noteq> []"
  with Nil show ?thesis by simp
next
  case (Cons x xs)
  from nearestFrom_range [of 0 1 xs v f x] Cons show ?thesis
    by (simp add: IndexOrMinFunc_def)
qed







lemma nearer_byKey:
  "nearer (byKey key) v a b
     = ((key b < key a \<and> key a \<le> key v) \<or> (key v \<le> key a \<and> key a < key b))"
  by (auto simp: nearer_def byKey_def Compare_def)

lemma nearestFrom_nearest:
  assumes "i = int (length pre)" "0 \<le> bi" "bi < i" "b = pre ! nat bi"
    "\<forall>x \<in> set pre. \<not> nearer (byKey key) v x b"
  shows "\<forall>x \<in> set (pre @ xs).
           \<not> nearer (byKey key) v x ((pre @ xs) ! nat (nearestFrom xs v (byKey key) i bi b))"
  using assms
proof (induction xs arbitrary: pre i bi b)
  case Nil
  then show ?case by simp
next
  case (Cons x xs)
  show ?case
  proof (cases "nearer (byKey key) v x b")
    case True
    have inv: "\<forall>y \<in> set (pre @ [x]). \<not> nearer (byKey key) v y x"
    proof
      fix y assume "y \<in> set (pre @ [x])"
      then consider "y \<in> set pre" | "y = x" by auto
      then show "\<not> nearer (byKey key) v y x"
      proof cases
        case 1
        with Cons.prems(5) have "\<not> nearer (byKey key) v y b" by simp
        with True show ?thesis by (auto simp: nearer_byKey)
      next
        case 2
        then show ?thesis by (simp add: nearer_byKey)
      qed
    qed
    have "\<forall>y \<in> set ((pre @ [x]) @ xs).
           \<not> nearer (byKey key) v y
               (((pre @ [x]) @ xs) ! nat (nearestFrom xs v (byKey key) (i + 1) i x))"
    proof (rule Cons.IH)
      show "i + 1 = int (length (pre @ [x]))" using Cons.prems(1) by simp
      show "0 \<le> i" using Cons.prems(2,3) by simp
      show "i < i + 1" by simp
      show "x = (pre @ [x]) ! nat i" using Cons.prems(1) by simp
      show "\<forall>y \<in> set (pre @ [x]). \<not> nearer (byKey key) v y x" by (rule inv)
    qed
    with True show ?thesis by simp
  next
    case False
    have "\<forall>y \<in> set ((pre @ [x]) @ xs).
           \<not> nearer (byKey key) v y
               (((pre @ [x]) @ xs) ! nat (nearestFrom xs v (byKey key) (i + 1) bi b))"
    proof (rule Cons.IH)
      show "i + 1 = int (length (pre @ [x]))" using Cons.prems(1) by simp
      show "0 \<le> bi" by (rule Cons.prems(2))
      show "bi < i + 1" using Cons.prems(3) by simp
      have "nat bi < length pre" using Cons.prems(1,2,3) by linarith
      then show "b = (pre @ [x]) ! nat bi" using Cons.prems(4) by (simp add: nth_append)
      show "\<forall>y \<in> set (pre @ [x]). \<not> nearer (byKey key) v y b"
        using Cons.prems(5) False by simp
    qed
    with False show ?thesis by simp
  qed
qed

lemma IndexOrMinFunc_nearest:
  assumes "s \<noteq> []"
  shows "\<forall>x \<in> set s. \<not> nearer (byKey key) v x (s ! nat (IndexOrMinFunc s v (byKey key)))"
proof -
  from assms obtain x xs where s: "s = x # xs" by (cases s) auto
  have "\<forall>y \<in> set ([x] @ xs).
          \<not> nearer (byKey key) v y (([x] @ xs) ! nat (nearestFrom xs v (byKey key) 1 0 x))"
    by (rule nearestFrom_nearest) (simp_all add: nearer_byKey)
  with s show ?thesis by (simp add: IndexOrMinFunc_def)
qed

lemma indexFrom_first:
  "indexFrom s p i = - 1 \<and> (\<forall>x \<in> set s. \<not> p x)
   \<or> (i \<le> indexFrom s p i \<and> indexFrom s p i < i + int (length s)
       \<and> p (s ! nat (indexFrom s p i - i))
       \<and> (\<forall>j < nat (indexFrom s p i - i). \<not> p (s ! j)))"
proof (induction s arbitrary: i)
  case Nil
  then show ?case by simp
next
  case (Cons x s)
  show ?case
  proof (cases "p x")
    case True
    then show ?thesis by simp
  next
    case False
    from Cons [of "i + 1"] show ?thesis
    proof
      assume "indexFrom s p (i + 1) = - 1 \<and> (\<forall>x \<in> set s. \<not> p x)"
      with False show ?thesis by simp
    next
      assume a: "i + 1 \<le> indexFrom s p (i + 1) \<and> indexFrom s p (i + 1) < i + 1 + int (length s)
       \<and> p (s ! nat (indexFrom s p (i + 1) - (i + 1)))
       \<and> (\<forall>j < nat (indexFrom s p (i + 1) - (i + 1)). \<not> p (s ! j))"
      let ?r = "indexFrom s p (i + 1)"
      have n: "nat (?r - i) = Suc (nat (?r - (i + 1)))" using a by linarith
      have "\<forall>j < nat (?r - i). \<not> p ((x # s) ! j)"
      proof (intro allI impI)
        fix j assume "j < nat (?r - i)"
        with n a False show "\<not> p ((x # s) ! j)" by (cases j) auto
      qed
      with a n False show ?thesis by simp
    qed
  qed
qed

lemma IndexFunc_first:
  "IndexFunc s p = - 1 \<and> (\<forall>x \<in> set s. \<not> p x)
   \<or> (0 \<le> IndexFunc s p \<and> IndexFunc s p < int (length s)
       \<and> p (s ! nat (IndexFunc s p)) \<and> (\<forall>j < nat (IndexFunc s p). \<not> p (s ! j)))"
  using indexFrom_first [of s p 0] by (simp add: IndexFunc_def)

lemma byKey_eq: "(byKey key t v = 0) = (key t = key v)"
  by (simp add: byKey_def Compare_def)

lemma cacheValue_bound:
  assumes "\<forall>k s. cache k = Some s \<longrightarrow> int (length s) \<le> max (md + 1) 8"
  shows "\<exists>cache'. cacheValue cache cid v f md = Inr cache'
           \<and> (\<forall>k s. cache' k = Some s \<longrightarrow> int (length s) \<le> max (md + 1) 8)"
proof (cases "cache cid")
  case None
  with assms show ?thesis by (auto simp: cacheValue_def)
next
  case (Some scache)
  show ?thesis
  proof (cases "int (length scache) < max (md + 1) 8")
    case True
    note lt = True
    show ?thesis
    proof (cases "IndexFunc scache (\<lambda>t. f t v = 0) < 0")
      case True
      with Some lt assms show ?thesis by (auto simp: cacheValue_def Let_def)
    next
      case False
      with IndexFunc_range [of scache "\<lambda>t. f t v = 0"]
      have "0 \<le> IndexFunc scache (\<lambda>t. f t v = 0)"
        "IndexFunc scache (\<lambda>t. f t v = 0) < int (length scache)" by auto
      with Some lt False assms show ?thesis
        by (auto simp: cacheValue_def Let_def setIndex_def)
    qed
  next
    case False
    then have "scache \<noteq> []" by auto
    from IndexOrMinFunc_range [OF this, of v f] Some False assms show ?thesis
      by (auto simp: cacheValue_def Let_def setIndex_def)
  qed
qed

lemma cacheAll_bound:
  assumes "\<forall>k s. cache k = Some s \<longrightarrow> int (length s) \<le> max (md + 1) 8"
  shows "\<exists>cache'. cacheAll cache ops f md = Inr cache'
           \<and> (\<forall>k s. cache' k = Some s \<longrightarrow> int (length s) \<le> max (md + 1) 8)"
  using assms
proof (induction ops arbitrary: cache)
  case Nil
  then show ?case by simp
next
  case (Cons a ops)
  obtain cid v where a: "a = (cid, v)" by (cases a)
  from cacheValue_bound [OF Cons.prems, of cid v f] obtain cache1
    where c1: "cacheValue cache cid v f md = Inr cache1"
      and b1: "\<forall>k s. cache1 k = Some s \<longrightarrow> int (length s) \<le> max (md + 1) 8" by blast
  from Cons.IH [OF b1] a c1 show ?case by simp
qed

section \<open>The claims\<close>

text \<open>
  C10. \<open>ClearAllCaches\<close> empties the recoverer-waste cache, the combining-recoverer
  waste-and-index cache and the parser-result cache; the output cache is left as it is, and
  the state that is returned is the state that was given, with its cursor, mode, saveSpot,
  error slot and accumulated errors.
\<close>

theorem ClearAllCaches_frame:
  "fst (ClearAllCaches st c) = st
   \<and> recovererWasteCache (snd (ClearAllCaches st c)) = Map.empty
   \<and> recovererWasteIdxCache (snd (ClearAllCaches st c)) = Map.empty
   \<and> parserCache (snd (ClearAllCaches st c)) = Map.empty
   \<and> outputCache (snd (ClearAllCaches st c)) = outputCache c"
  by (simp add: ClearAllCaches_def)


text \<open>
  C7. \<open>MoveBy\<close> adds the offset of the last newline within the moved text to the old
  \<open>prevNl\<close>, not to the old cursor. In the text of three lines \<open>a\<close>, \<open>b\<close>, \<open>c\<close> a move by 3
  from the start gives the cursor 3 with \<open>prevNl = 1\<close> and \<open>line = 2\<close>, where the invariant
  holds; the move by 2 that follows gives the cursor 5 with \<open>prevNl = 2\<close>, the offset of
  the byte \<open>b\<close>, while the last newline before the cursor is at offset 3.
\<close>

theorem MoveBy_prevNl_drifts:
  "MoveBy (textState twoLines) 3 = Inr (stateOf (textInput twoLines 3 1 2) 3)
   \<and> inputInv (textInput twoLines 3 1 2)
   \<and> MoveBy (stateOf (textInput twoLines 3 1 2) 3) 2 = Inr (stateOf (textInput twoLines 5 2 3) 3)
   \<and> \<not> inputInv (textInput twoLines 5 2 3)
   \<and> twoLines ! 2 = CHR ''b'' \<and> twoLines ! 3 = newline"
  by (simp add: MoveBy_def textState_def stateOf_def textInput_def twoLines_def inputInv_def
        Let_def slice_def LastIndexByte_def Count_def newline_def)

text \<open>
  C6. The clause of the text deleter that counts two different brackets in a row stands
  inside the test that the class has changed, and so never counts: one delete step from the
  start of \<open>})\<close> passes both brackets, and in \<open>x})y\<close> the first step stops before \<open>}\<close>
  and the second one after \<open>)\<close>.
\<close>

theorem DefaultTextDeleter_brackets_one_step:
  "DefaultTextDeleter asciiTables (textState ''})'') 1
     = Inr (stateOf (textInput ''})'' 2 (- 1) 1) 3)
   \<and> DefaultTextDeleter asciiTables (textState ''x})y'') 1
     = Inr (stateOf (textInput ''x})y'' 1 (- 1) 1) 3)
   \<and> DefaultTextDeleter asciiTables (textState ''x})y'') 2
     = Inr (stateOf (textInput ''x})y'' 3 (- 1) 1) 3)"
proof -
  have typs: "runeTyp asciiTables 125 = 40" "runeTyp asciiTables 41 = 40"
    "runeTyp asciiTables 120 = 97" "runeTyp asciiTables 121 = 97"
    by (simp_all add: runeTyp_def asciiTables_def runeOf_def)
  have s1: "textDeleterScan asciiTables 1 (rangeString ''})'') 0 0 = - 1"
    by (simp add: rangeString_def typs runeOf_def Let_def)
  have s2: "textDeleterScan asciiTables 1 (rangeString ''x})y'') 0 0 = 1"
    by (simp add: rangeString_def typs runeOf_def Let_def)
  have s3: "textDeleterScan asciiTables 2 (rangeString ''x})y'') 0 0 = 3"
    by (simp add: rangeString_def typs runeOf_def Let_def)
  show ?thesis
    by (simp add: DefaultTextDeleter_def s1 s2 s3 CurrentString_def sliceFrom_def slice_def
          textState_def stateOf_def textInput_def BytesRemaining_def MoveBy_def
          LastIndexByte_def newline_def Let_def)
qed




text \<open>
  C8. \<open>cacheValue\<close> with a comparison by key: without a list for the ID it creates the list
  of the one value; below the capacity \<open>max(maxDel+1, 8)\<close> it overwrites the first entry of
  the same key in place, and appends the value when there is none; at capacity it
  overwrites an entry whose key is nearest to the new key in the order of the keys (no
  other key lies between the two). A cache whose lists hold at most the capacity keeps
  that bound, and so does every cache built from the empty one.
\<close>

theorem cacheValue_policy:
  "(cache cid = None \<longrightarrow> cacheValue cache cid v (byKey key) md = Inr (cache(cid \<mapsto> [v])))
   \<and> (cache cid = Some s \<and> int (length s) < max (md + 1) 8 \<longrightarrow>
        (if \<exists>t \<in> set s. key t = key v
         then \<exists>i < length s. key (s ! i) = key v \<and> (\<forall>j < i. key (s ! j) \<noteq> key v)
                \<and> cacheValue cache cid v (byKey key) md = Inr (cache(cid \<mapsto> s[i := v]))
         else cacheValue cache cid v (byKey key) md = Inr (cache(cid \<mapsto> s @ [v]))))
   \<and> (cache cid = Some s \<and> max (md + 1) 8 \<le> int (length s) \<longrightarrow>
        (\<exists>i < length s.
            (\<forall>j < length s. \<not> (key (s ! i) < key (s ! j) \<and> key (s ! j) \<le> key v)
                           \<and> \<not> (key v \<le> key (s ! j) \<and> key (s ! j) < key (s ! i)))
            \<and> cacheValue cache cid v (byKey key) md = Inr (cache(cid \<mapsto> s[i := v]))))
   \<and> ((\<forall>k l. cache k = Some l \<longrightarrow> int (length l) \<le> max (md + 1) 8) \<longrightarrow>
        (\<exists>cache'. cacheValue cache cid v (byKey key) md = Inr cache'
           \<and> (\<forall>k l. cache' k = Some l \<longrightarrow> int (length l) \<le> max (md + 1) 8)))
   \<and> (\<exists>cache'. cacheAll Map.empty ops (byKey key) md = Inr cache'
           \<and> (\<forall>k l. cache' k = Some l \<longrightarrow> int (length l) \<le> max (md + 1) 8))"
proof (intro conjI impI)
  assume "cache cid = None"
  then show "cacheValue cache cid v (byKey key) md = Inr (cache(cid \<mapsto> [v]))"
    by (simp add: cacheValue_def)
next
  assume a: "cache cid = Some s \<and> int (length s) < max (md + 1) 8"
  let ?i = "IndexFunc s (\<lambda>t. byKey key t v = 0)"
  show "if \<exists>t \<in> set s. key t = key v
         then \<exists>i < length s. key (s ! i) = key v \<and> (\<forall>j < i. key (s ! j) \<noteq> key v)
                \<and> cacheValue cache cid v (byKey key) md = Inr (cache(cid \<mapsto> s[i := v]))
         else cacheValue cache cid v (byKey key) md = Inr (cache(cid \<mapsto> s @ [v]))"
  proof (cases "\<exists>t \<in> set s. key t = key v")
    case True
    with IndexFunc_first [of s "\<lambda>t. byKey key t v = 0"]
    have i: "0 \<le> ?i" "?i < int (length s)" "key (s ! nat ?i) = key v"
      "\<forall>j < nat ?i. key (s ! j) \<noteq> key v"
      by (auto simp: byKey_eq)
    then have "cacheValue cache cid v (byKey key) md = Inr (cache(cid \<mapsto> s[nat ?i := v]))"
      using a by (simp add: cacheValue_def Let_def setIndex_def)
    moreover have "nat ?i < length s" using i by simp
    ultimately have "\<exists>i < length s. key (s ! i) = key v \<and> (\<forall>j < i. key (s ! j) \<noteq> key v)
                \<and> cacheValue cache cid v (byKey key) md = Inr (cache(cid \<mapsto> s[i := v]))"
      using i by blast
    with True show ?thesis by simp
  next
    case False
    with IndexFunc_first [of s "\<lambda>t. byKey key t v = 0"]
    have "?i = - 1" by (auto simp: byKey_eq)
    with a False show ?thesis by (simp add: cacheValue_def Let_def)
  qed
next
  assume a: "cache cid = Some s \<and> max (md + 1) 8 \<le> int (length s)"
  then have ne: "s \<noteq> []" by auto
  let ?i = "IndexOrMinFunc s v (byKey key)"
  from IndexOrMinFunc_range [OF ne, of v "byKey key"]
  have r: "0 \<le> ?i" "?i < int (length s)" by simp_all
  have full: "\<not> int (length s) < max (md + 1) 8" using a by linarith
  have cs: "cache cid = Some s" using a by simp
  have cv: "cacheValue cache cid v (byKey key) md = Inr (cache(cid \<mapsto> s[nat ?i := v]))"
    using r by (simp add: cacheValue_def Let_def setIndex_def full cs del: max_less_iff_conj)
  have near: "\<forall>j < length s. \<not> (key (s ! nat ?i) < key (s ! j) \<and> key (s ! j) \<le> key v)
                           \<and> \<not> (key v \<le> key (s ! j) \<and> key (s ! j) < key (s ! nat ?i))"
  proof (intro allI impI)
    fix j assume "j < length s"
    then have "s ! j \<in> set s" by simp
    with IndexOrMinFunc_nearest [OF ne, of key v]
    have "\<not> nearer (byKey key) v (s ! j) (s ! nat ?i)" by blast
    then show "\<not> (key (s ! nat ?i) < key (s ! j) \<and> key (s ! j) \<le> key v)
                           \<and> \<not> (key v \<le> key (s ! j) \<and> key (s ! j) < key (s ! nat ?i))"
      by (simp add: nearer_byKey)
  qed
  have "nat ?i < length s" using r by simp
  with near cv show "\<exists>i < length s.
            (\<forall>j < length s. \<not> (key (s ! i) < key (s ! j) \<and> key (s ! j) \<le> key v)
                           \<and> \<not> (key v \<le> key (s ! j) \<and> key (s ! j) < key (s ! i)))
            \<and> cacheValue cache cid v (byKey key) md = Inr (cache(cid \<mapsto> s[i := v]))"
    by blast
next
  assume "\<forall>k l. cache k = Some l \<longrightarrow> int (length l) \<le> max (md + 1) 8"
  then show "\<exists>cache'. cacheValue cache cid v (byKey key) md = Inr cache'
           \<and> (\<forall>k l. cache' k = Some l \<longrightarrow> int (length l) \<le> max (md + 1) 8)"
    by (rule cacheValue_bound)
next
  show "\<exists>cache'. cacheAll Map.empty ops (byKey key) md = Inr cache'
           \<and> (\<forall>k l. cache' k = Some l \<longrightarrow> int (length l) \<le> max (md + 1) 8)"
    by (rule cacheAll_bound) simp
qed


theorem cacheValue_policy_witness:
  "cacheValue Map.empty (1::nat) (wasteAt 5 0) (byKey cw_pos) 3 = Inr [1 \<mapsto> [wasteAt 5 0]]
   \<and> (\<exists>i < length twoWastes. cw_pos (twoWastes ! i) = 5
         \<and> (\<forall>j < i. cw_pos (twoWastes ! j) \<noteq> 5)
         \<and> cacheValue [1 \<mapsto> twoWastes] (1::nat) (wasteAt 5 9) (byKey cw_pos) 3
             = Inr [1 \<mapsto> twoWastes[i := wasteAt 5 9]])
   \<and> cacheValue [1 \<mapsto> twoWastes] (1::nat) (wasteAt 7 9) (byKey cw_pos) 3
             = Inr [1 \<mapsto> twoWastes @ [wasteAt 7 9]]
   \<and> (\<exists>i < length eightWastes.
         (\<forall>j < length eightWastes.
             \<not> (cw_pos (eightWastes ! i) < cw_pos (eightWastes ! j) \<and> cw_pos (eightWastes ! j) \<le> 33)
           \<and> \<not> (33 \<le> cw_pos (eightWastes ! j) \<and> cw_pos (eightWastes ! j) < cw_pos (eightWastes ! i)))
         \<and> cacheValue [1 \<mapsto> eightWastes] (1::nat) (wasteAt 33 9) (byKey cw_pos) 3
             = Inr [1 \<mapsto> eightWastes[i := wasteAt 33 9]])
   \<and> (\<exists>cache'. cacheAll Map.empty [(1::nat, wasteAt 5 0), (1, wasteAt 7 9)] (byKey cw_pos) 3
                   = Inr cache'
         \<and> (\<forall>k l. cache' k = Some l \<longrightarrow> int (length l) \<le> 8))"
proof -
  have a: "cacheValue Map.empty (1::nat) (wasteAt 5 0) (byKey cw_pos) 3 = Inr [1 \<mapsto> [wasteAt 5 0]]"
    using cacheValue_policy [of Map.empty "1::nat" "wasteAt 5 0" cw_pos 3 "[]" "[]"] by simp
  have b: "\<exists>i < length twoWastes. cw_pos (twoWastes ! i) = 5
         \<and> (\<forall>j < i. cw_pos (twoWastes ! j) \<noteq> 5)
         \<and> cacheValue [1 \<mapsto> twoWastes] (1::nat) (wasteAt 5 9) (byKey cw_pos) 3
             = Inr [1 \<mapsto> twoWastes[i := wasteAt 5 9]]"
    using cacheValue_policy [of "[1 \<mapsto> twoWastes]" "1::nat" "wasteAt 5 9" cw_pos 3 twoWastes "[]"]
    by (simp add: twoWastes_def wasteAt_def)
  have c: "cacheValue [1 \<mapsto> twoWastes] (1::nat) (wasteAt 7 9) (byKey cw_pos) 3
             = Inr [1 \<mapsto> twoWastes @ [wasteAt 7 9]]"
    using cacheValue_policy [of "[1 \<mapsto> twoWastes]" "1::nat" "wasteAt 7 9" cw_pos 3 twoWastes "[]"]
    by (simp add: twoWastes_def wasteAt_def)
  have l8: "length eightWastes = 8" by (simp add: eightWastes_def)
  have d: "\<exists>i < length eightWastes.
         (\<forall>j < length eightWastes.
             \<not> (cw_pos (eightWastes ! i) < cw_pos (eightWastes ! j) \<and> cw_pos (eightWastes ! j) \<le> 33)
           \<and> \<not> (33 \<le> cw_pos (eightWastes ! j) \<and> cw_pos (eightWastes ! j) < cw_pos (eightWastes ! i)))
         \<and> cacheValue [1 \<mapsto> eightWastes] (1::nat) (wasteAt 33 9) (byKey cw_pos) 3
             = Inr [1 \<mapsto> eightWastes[i := wasteAt 33 9]]"
    using cacheValue_policy [of "[1 \<mapsto> eightWastes]" "1::nat" "wasteAt 33 9" cw_pos 3 eightWastes "[]"]
    by (simp add: l8 wasteAt_def)
  have e: "\<exists>cache'. cacheAll Map.empty [(1::nat, wasteAt 5 0), (1, wasteAt 7 9)] (byKey cw_pos) 3
                   = Inr cache'
         \<and> (\<forall>k l. cache' k = Some l \<longrightarrow> int (length l) \<le> 8)"
    using cacheValue_policy [of Map.empty "1::nat" "wasteAt 5 0" cw_pos 3 "[]"
        "[(1::nat, wasteAt 5 0), (1, wasteAt 7 9)]"]
    by (simp del: cacheAll.simps)
  from a b c d e show ?thesis by blast
qed

end
